theory Spec2Isabelle
  imports Main
begin

section \<open>Friend requests: the views of \<open>users/views.py\<close>\<close>

text \<open>
  The views of \<open>FriendRequestViewSet\<close> read and write two tables through the Django ORM:
  the users and the friend requests. The tables are lists of rows, a view is a function
  from the request and the database to the response and the database it leaves behind.
  An exception raised inside a view's \<open>try\<close> block is a value of \<open>exn\<close>, and the
  \<open>except\<close> clauses of the view are tried on it in the order of the source.
\<close>

subsection \<open>Rows, requests, responses\<close>

text \<open>
  A row of \<open>django.contrib.auth.models.User\<close>: the primary key and the three columns
  that the views of this application read.
\<close>

record User =
  user_id :: int
  email :: string
  first_name :: string
  last_name :: string

text \<open>
  Modelled from the spec: the missing model class \<open>FriendRequest\<close> of
  \<open>users/models.py\<close>. The spec's data model gives it an identifier, the
  initiator \<open>fromUser\<close>, the recipient \<open>toUser\<close>, a status among pending, accepted and
  rejected, and a creation timestamp; a record is created in status pending. The two
  foreign keys hold the primary key of the user they point to. The views write the status
  as one of the strings \<open>'pending'\<close>, \<open>'accepted'\<close>, \<open>'rejected'\<close>.
\<close>

record FriendRequest =
  request_id :: int
  from_user :: int
  to_user :: int
  status :: string
  created_at :: nat

text \<open>
  The database: both tables, and the next value of the primary-key sequence of the
  friend-request table.
\<close>

record db =
  users :: "User list"
  friend_requests :: "FriendRequest list"
  next_id :: int

text \<open>
  What a view reads of the HTTP request: \<open>request.user\<close>, the authenticated user, and
  \<open>request.data\<close>, a dictionary whose values are integers here (\<open>request.data.get(k)\<close>
  is \<open>data request k\<close>, with \<open>None\<close> for a missing key).
\<close>

record request =
  user :: User
  data :: "string \<rightharpoonup> int"

datatype exn =
    DoesNotExist string
  | MultipleObjectsReturned string
  | Http404 string

text \<open>
  The body of a response. A dictionary of strings is an association list; the body
  \<open>{'error': str(e)}\<close> of the catch-all handler is \<open>ErrorOf e\<close>; a serialised row is the
  row itself, whatever fields the serialisers of \<open>users/serializer.py\<close> select;
  \<open>Paginated\<close> is what \<open>get_paginated_response\<close> wraps around a page.
\<close>

datatype body =
    Dict "(string \<times> string) list"
  | ErrorOf exn
  | FriendRequestData FriendRequest
  | FriendRequestList "FriendRequest list"
  | UserList "User list"
  | Paginated body

record response =
  resp_data :: body
  status_code :: nat

definition Response :: "body \<Rightarrow> nat \<Rightarrow> response" where
  "Response d s = \<lparr>resp_data = d, status_code = s\<rparr>"

definition HTTP_200_OK :: nat where "HTTP_200_OK = 200"
definition HTTP_201_CREATED :: nat where "HTTP_201_CREATED = 201"
definition HTTP_400_BAD_REQUEST :: nat where "HTTP_400_BAD_REQUEST = 400"
definition HTTP_404_NOT_FOUND :: nat where "HTTP_404_NOT_FOUND = 404"
definition HTTP_429_TOO_MANY_REQUESTS :: nat where "HTTP_429_TOO_MANY_REQUESTS = 429"
definition HTTP_500_INTERNAL_SERVER_ERROR :: nat where "HTTP_500_INTERNAL_SERVER_ERROR = 500"

subsection \<open>The ORM calls the views make\<close>

text \<open>
  \<open>Model.objects.get(...)\<close> on the rows that satisfy the lookup: the row when there is
  exactly one, the model's \<open>DoesNotExist\<close> when there is none, the model's
  \<open>MultipleObjectsReturned\<close> otherwise.
\<close>

definition objects_get :: "string \<Rightarrow> ('a \<Rightarrow> bool) \<Rightarrow> 'a list \<Rightarrow> exn + 'a" where
  "objects_get model_name lookup rows =
     (case filter lookup rows of
        [] \<Rightarrow> Inl (DoesNotExist model_name)
      | [row] \<Rightarrow> Inr row
      | _ \<Rightarrow> Inl (MultipleObjectsReturned model_name))"

text \<open>
  \<open>django.shortcuts.get_object_or_404\<close>: it calls \<open>get\<close> and turns the model's
  \<open>DoesNotExist\<close> into \<open>Http404\<close>, whose message names the model. Any other exception
  goes through. \<open>Http404\<close> is a subclass of \<open>Exception\<close>, and of nothing else.
\<close>

definition get_object_or_404 :: "string \<Rightarrow> ('a \<Rightarrow> bool) \<Rightarrow> 'a list \<Rightarrow> exn + 'a" where
  "get_object_or_404 model_name lookup rows =
     (case objects_get model_name lookup rows of
        Inl (DoesNotExist m) \<Rightarrow> Inl (Http404 (''No '' @ m @ '' matches the given query.''))
      | Inl e \<Rightarrow> Inl e
      | Inr row \<Rightarrow> Inr row)"

text \<open>
  \<open>FriendRequest.objects.get_or_create(from_user=..., to_user=...)\<close>: the row that
  \<open>get\<close> finds, with \<open>False\<close>; when \<open>get\<close> raises \<open>DoesNotExist\<close>, a new row with the next
  primary key, the model's default status and the time of the call, with \<open>True\<close>.
\<close>

definition get_or_create ::
  "nat \<Rightarrow> User \<Rightarrow> User \<Rightarrow> db \<Rightarrow> exn + ((FriendRequest \<times> bool) \<times> db)" where
  "get_or_create now from_u to_u d =
     (case objects_get ''FriendRequest''
             (\<lambda>fr. from_user fr = user_id from_u \<and> to_user fr = user_id to_u)
             (friend_requests d) of
        Inr fr \<Rightarrow> Inr ((fr, False), d)
      | Inl (DoesNotExist m) \<Rightarrow>
          (let fr = \<lparr>request_id = next_id d, from_user = user_id from_u,
                     to_user = user_id to_u, status = ''pending'', created_at = now\<rparr>
           in Inr ((fr, True),
                   d\<lparr>friend_requests := friend_requests d @ [fr], next_id := next_id d + 1\<rparr>))
      | Inl e \<Rightarrow> Inl e)"

text \<open>\<open>friend_request.save()\<close>: the row with the object's primary key becomes the object.\<close>

definition save :: "FriendRequest \<Rightarrow> db \<Rightarrow> db" where
  "save fr d =
     d\<lparr>friend_requests :=
         map (\<lambda>row. if request_id row = request_id fr then fr else row) (friend_requests d)\<rparr>"

subsection \<open>The views\<close>

text \<open>
  \<open>send_request\<close>. The first argument is the time of the call, which the new row
  records. The \<open>except\<close> clauses: \<open>User.DoesNotExist\<close> gives 404, any other exception 500.
\<close>

definition send_request_except :: "exn \<Rightarrow> response" where
  "send_request_except e =
     (case e of
        DoesNotExist m \<Rightarrow>
          (if m = ''User''
           then Response (Dict [(''error'', ''User with the provided ID does not exist'')])
                  HTTP_404_NOT_FOUND
           else Response (ErrorOf e) HTTP_500_INTERNAL_SERVER_ERROR)
      | _ \<Rightarrow> Response (ErrorOf e) HTTP_500_INTERNAL_SERVER_ERROR)"

definition send_request :: "nat \<Rightarrow> request \<Rightarrow> db \<Rightarrow> response \<times> db" where
  "send_request now req d =
     (if length (filter (\<lambda>fr. from_user fr = user_id (user req) \<and> status fr = ''pending'')
                   (friend_requests d)) \<ge> 3
      then (Response (Dict [(''error'', ''Rate limit exceeded'')]) HTTP_429_TOO_MANY_REQUESTS, d)
      else
        (let to_user_id = data req ''to_user_id'' in
         case get_object_or_404 ''User'' (\<lambda>u. Some (user_id u) = to_user_id) (users d) of
           Inl e \<Rightarrow> (send_request_except e, d)
         | Inr to_u \<Rightarrow>
             (case get_or_create now (user req) to_u d of
                Inl e \<Rightarrow> (send_request_except e, d)
              | Inr ((friend_request, created), d') \<Rightarrow>
                  if \<not> created
                  then (Response (Dict [(''error'', ''Friend request already sent'')])
                          HTTP_400_BAD_REQUEST, d')
                  else (Response (FriendRequestData friend_request) HTTP_201_CREATED, d'))))"

text \<open>
  \<open>accept_request\<close> and \<open>reject_request\<close>. The \<open>except\<close> clauses of both:
  \<open>FriendRequest.DoesNotExist\<close> gives 404, any other exception 500.
\<close>

definition friend_request_except :: "exn \<Rightarrow> response" where
  "friend_request_except e =
     (case e of
        DoesNotExist m \<Rightarrow>
          (if m = ''FriendRequest''
           then Response (Dict [(''error'', ''Friend request not found'')]) HTTP_404_NOT_FOUND
           else Response (ErrorOf e) HTTP_500_INTERNAL_SERVER_ERROR)
      | _ \<Rightarrow> Response (ErrorOf e) HTTP_500_INTERNAL_SERVER_ERROR)"

definition accept_request :: "request \<Rightarrow> db \<Rightarrow> response \<times> db" where
  "accept_request req d =
     (let friend_request_id = data req ''request_id'' in
      case get_object_or_404 ''FriendRequest''
             (\<lambda>fr. Some (request_id fr) = friend_request_id) (friend_requests d) of
        Inl e \<Rightarrow> (friend_request_except e, d)
      | Inr friend_request \<Rightarrow>
          (Response (Dict [(''status'', ''accepted'')]) HTTP_200_OK,
           save (friend_request\<lparr>status := ''accepted''\<rparr>) d))"

definition reject_request :: "request \<Rightarrow> db \<Rightarrow> response \<times> db" where
  "reject_request req d =
     (let friend_request_id = data req ''request_id'' in
      case get_object_or_404 ''FriendRequest''
             (\<lambda>fr. Some (request_id fr) = friend_request_id) (friend_requests d) of
        Inl e \<Rightarrow> (friend_request_except e, d)
      | Inr friend_request \<Rightarrow>
          (Response (Dict [(''status'', ''rejected'')]) HTTP_200_OK,
           save (friend_request\<lparr>status := ''rejected''\<rparr>) d))"

text \<open>
  Modelled from the spec: the missing declarations of \<open>users/models.py\<close> that make
  \<open>sent_requests\<close> and \<open>received_requests\<close> the reverse relations of the foreign keys
  \<open>from_user\<close> and \<open>to_user\<close>; the spec's \<open>listFriends\<close> reads an accepted request in
  either direction. This is the query of \<open>list_friends\<close>. The two \<open>Q\<close> objects are joined by OR, so each
  relation is a left outer join: a user with no related row is still one row of the join.
  The query returns one copy of the user for every pair of joined rows that satisfies
  either \<open>Q\<close>.
\<close>

definition left_outer :: "'a list \<Rightarrow> 'a option list" where
  "left_outer rows = (if rows = [] then [None] else map Some rows)"

definition sent_requests :: "db \<Rightarrow> User \<Rightarrow> FriendRequest list" where
  "sent_requests d u = filter (\<lambda>fr. from_user fr = user_id u) (friend_requests d)"

definition received_requests :: "db \<Rightarrow> User \<Rightarrow> FriendRequest list" where
  "received_requests d u = filter (\<lambda>fr. to_user fr = user_id u) (friend_requests d)"

definition friends :: "db \<Rightarrow> User \<Rightarrow> User list" where
  "friends d me =
     concat (map (\<lambda>u.
       concat (map (\<lambda>s.
         concat (map (\<lambda>r.
           if (case s of None \<Rightarrow> False
               | Some fr \<Rightarrow> to_user fr = user_id me \<and> status fr = ''accepted'')
              \<or> (case r of None \<Rightarrow> False
                  | Some fr \<Rightarrow> from_user fr = user_id me \<and> status fr = ''accepted'')
           then [u] else [])
         (left_outer (received_requests d u))))
       (left_outer (sent_requests d u))))
     (users d))"

text \<open>
  \<open>list_friends\<close> and \<open>list_pending_requests\<close>. The paginator of the view set comes from
  the project's settings: \<open>paginate_queryset\<close> is a parameter, \<open>None\<close> when no paginator
  is configured and the page otherwise.
\<close>

definition list_friends :: "(User list \<Rightarrow> User list option) \<Rightarrow> request \<Rightarrow> db \<Rightarrow> response" where
  "list_friends paginate_queryset req d =
     (let fs = friends d (user req) in
      case paginate_queryset fs of
        Some page \<Rightarrow> Response (Paginated (UserList page)) HTTP_200_OK
      | None \<Rightarrow> Response (UserList fs) HTTP_200_OK)"

definition pending_requests :: "db \<Rightarrow> User \<Rightarrow> FriendRequest list" where
  "pending_requests d me =
     filter (\<lambda>fr. to_user fr = user_id me \<and> status fr = ''pending'') (friend_requests d)"

definition list_pending_requests ::
  "(FriendRequest list \<Rightarrow> FriendRequest list option) \<Rightarrow> request \<Rightarrow> db \<Rightarrow> response" where
  "list_pending_requests paginate_queryset req d =
     (let prs = pending_requests d (user req) in
      case paginate_queryset prs of
        Some page \<Rightarrow> Response (Paginated (FriendRequestList page)) HTTP_200_OK
      | None \<Rightarrow> Response (FriendRequestList prs) HTTP_200_OK)"

subsection \<open>Derived notions and sample data\<close>

text \<open>
  Sample data: four users, the table before any request, a request to send to user \<open>i\<close>
  and a request to accept or reject friend request \<open>i\<close>.
\<close>

definition alice :: User where
  "alice = \<lparr>user_id = 1, email = ''alice@example.com'', first_name = ''Alice'', last_name = ''A''\<rparr>"

definition bob :: User where
  "bob = \<lparr>user_id = 2, email = ''bob@example.com'', first_name = ''Bob'', last_name = ''B''\<rparr>"

definition carol :: User where
  "carol = \<lparr>user_id = 3, email = ''carol@example.com'', first_name = ''Carol'', last_name = ''C''\<rparr>"

definition dave :: User where
  "dave = \<lparr>user_id = 4, email = ''dave@example.com'', first_name = ''Dave'', last_name = ''D''\<rparr>"

definition db0 :: db where
  "db0 = \<lparr>users = [alice, bob, carol, dave], friend_requests = [], next_id = 1\<rparr>"

definition send_to :: "User \<Rightarrow> int \<Rightarrow> request" where
  "send_to u i = \<lparr>user = u, data = [''to_user_id'' \<mapsto> i]\<rparr>"

definition decide :: "User \<Rightarrow> int \<Rightarrow> request" where
  "decide u i = \<lparr>user = u, data = [''request_id'' \<mapsto> i]\<rparr>"

text \<open>
  The count that \<open>send_request\<close> compares with 3: the requests sent by \<open>u\<close> whose status
  is \<open>pending\<close>.
\<close>

definition pending_outgoing :: "db \<Rightarrow> User \<Rightarrow> nat" where
  "pending_outgoing d u =
     length (filter (\<lambda>fr. from_user fr = user_id u \<and> status fr = ''pending'')
               (friend_requests d))"

text \<open>The ordered pair that \<open>get_or_create\<close> looks a request up by.\<close>

definition pair_of :: "FriendRequest \<Rightarrow> int \<times> int" where
  "pair_of fr = (from_user fr, to_user fr)"

text \<open>
  Two tables: \<open>db_three\<close>, where Alice has three pending requests, and \<open>db_one\<close>, where
  her request to Bob was rejected.
\<close>

definition db_three :: db where
  "db_three =
     \<lparr>users = [alice, bob, carol, dave],
      friend_requests =
        [\<lparr>request_id = 1, from_user = 1, to_user = 2, status = ''pending'', created_at = 10\<rparr>,
         \<lparr>request_id = 2, from_user = 1, to_user = 3, status = ''pending'', created_at = 11\<rparr>,
         \<lparr>request_id = 3, from_user = 1, to_user = 4, status = ''pending'', created_at = 12\<rparr>],
      next_id = 4\<rparr>"

definition db_one :: db where
  "db_one =
     \<lparr>users = [alice, bob, carol, dave],
      friend_requests =
        [\<lparr>request_id = 1, from_user = 1, to_user = 2, status = ''rejected'', created_at = 10\<rparr>],
      next_id = 2\<rparr>"

text \<open>A fifth user.\<close>

definition erin :: User where
  "erin = \<lparr>user_id = 5, email = ''erin@example.com'', first_name = ''Erin'', last_name = ''E''\<rparr>"

text \<open>The invariant of the spec's data model: no request is from a user to the same user.\<close>

definition no_self_request :: "db \<Rightarrow> bool" where
  "no_self_request d = list_all (\<lambda>fr. from_user fr \<noteq> to_user fr) (friend_requests d)"

text \<open>
  What the properties below assume of the table holds in every database that the three
  views make from an empty table: primary keys are unique and below the next value of
  the sequence, and no ordered pair has two requests.
\<close>

definition table_ok :: "db \<Rightarrow> bool" where
  "table_ok d \<longleftrightarrow>
     distinct (map request_id (friend_requests d)) \<and>
     (\<forall>fr\<in>set (friend_requests d). request_id fr < next_id d) \<and>
     distinct (map pair_of (friend_requests d))"

section \<open>Properties of the views\<close>

lemma filter_key_unique:
  "distinct (map f xs) \<Longrightarrow> x \<in> set xs \<Longrightarrow> filter (\<lambda>y. f y = f x) xs = [x]"
proof (induction xs)
  case Nil
  then show ?case by simp
next
  case (Cons a xs)
  show ?case
  proof (cases "a = x")
    case True
    with Cons.prems have "f x \<notin> f ` set xs" by simp
    then have "\<forall>y\<in>set xs. f y \<noteq> f x" by (metis imageI)
    then have "filter (\<lambda>y. f y = f x) xs = []" by (simp add: filter_empty_conv)
    with True show ?thesis by simp
  next
    case False
    with Cons.prems have "x \<in> set xs" and "f a \<noteq> f x" by auto
    with Cons show ?thesis by simp
  qed
qed

lemma objects_get_found:
  "filter P rows = [row] \<Longrightarrow> objects_get m P rows = Inr row"
  by (simp add: objects_get_def)

lemma objects_get_missing:
  "filter P rows = [] \<Longrightarrow> objects_get m P rows = Inl (DoesNotExist m)"
  by (simp add: objects_get_def)

lemma get_object_or_404_found:
  "filter P rows = [row] \<Longrightarrow> get_object_or_404 m P rows = Inr row"
  by (simp add: get_object_or_404_def objects_get_found)

lemma get_object_or_404_missing:
  "filter P rows = [] \<Longrightarrow>
   get_object_or_404 m P rows = Inl (Http404 (''No '' @ m @ '' matches the given query.''))"
  by (simp add: get_object_or_404_def objects_get_missing)

lemma get_object_or_404_never_DoesNotExist:
  "get_object_or_404 m P rows \<noteq> Inl (DoesNotExist m')"
  by (simp add: get_object_or_404_def split: sum.splits exn.splits)

text \<open>
  Claim C2. A user with three or more pending outgoing friend requests gets the response
  429 \<open>Rate limit exceeded\<close> from \<open>send_request\<close>, and the database stays as it was. The
  check comes before the recipient is looked up: the statement holds for every
  \<open>request.data\<close>, also one whose \<open>to_user_id\<close> is missing or names no user.
\<close>

theorem send_request_rate_limit:
  "pending_outgoing d (user req) \<ge> 3 \<Longrightarrow>
   send_request now req d =
     (Response (Dict [(''error'', ''Rate limit exceeded'')]) HTTP_429_TOO_MANY_REQUESTS, d)"
  by (simp add: send_request_def pending_outgoing_def)

lemma user_lookup:
  assumes "distinct (map user_id (users d))" and "b \<in> set (users d)"
  shows "get_object_or_404 ''User'' (\<lambda>u. Some (user_id u) = Some (user_id b)) (users d) = Inr b"
  using filter_key_unique [OF assms] by (simp add: get_object_or_404_found)

lemma request_lookup:
  assumes "distinct (map request_id (friend_requests d))" and "fr \<in> set (friend_requests d)"
  shows "get_object_or_404 ''FriendRequest'' (\<lambda>r. Some (request_id r) = Some (request_id fr))
           (friend_requests d) = Inr fr"
  using filter_key_unique [OF assms] by (simp add: get_object_or_404_found)

lemma pair_lookup:
  assumes "distinct (map pair_of (friend_requests d))" and "fr \<in> set (friend_requests d)"
  shows "objects_get ''FriendRequest''
           (\<lambda>r. from_user r = from_user fr \<and> to_user r = to_user fr) (friend_requests d) = Inr fr"
proof -
  have "(\<lambda>r. from_user r = from_user fr \<and> to_user r = to_user fr) = (\<lambda>r. pair_of r = pair_of fr)"
    by (auto simp: pair_of_def)
  with filter_key_unique [OF assms] show ?thesis by (simp add: objects_get_found)
qed

lemmas examples =
  alice_def bob_def carol_def dave_def db0_def db_one_def db_three_def send_to_def decide_def

lemmas http =
  HTTP_200_OK_def HTTP_201_CREATED_def HTTP_400_BAD_REQUEST_def HTTP_404_NOT_FOUND_def
  HTTP_429_TOO_MANY_REQUESTS_def HTTP_500_INTERNAL_SERVER_ERROR_def

lemmas views =
  send_request_def send_request_except_def accept_request_def reject_request_def
  friend_request_except_def get_object_or_404_def objects_get_def get_or_create_def
  save_def Response_def Let_def

lemma db_three_reachable:
  "db_three =
     snd (send_request 12 (send_to alice 4)
       (snd (send_request 11 (send_to alice 3)
         (snd (send_request 10 (send_to alice 2) db0)))))"
  by (simp add: examples views)

text \<open>
  With three pending requests of Alice in the table, her request to the unknown user 99
  is answered 429.
\<close>

theorem send_request_rate_limit_witness:
  "pending_outgoing db_three (user (send_to alice 99)) \<ge> 3 \<and>
   send_request 13 (send_to alice 99) db_three =
     (Response (Dict [(''error'', ''Rate limit exceeded'')]) HTTP_429_TOO_MANY_REQUESTS, db_three)"
proof -
  have h: "pending_outgoing db_three (user (send_to alice 99)) \<ge> 3"
    by (simp add: pending_outgoing_def examples)
  from h send_request_rate_limit [OF h, of 13] show ?thesis by simp
qed

text \<open>
  Claim C1, as stated, fails: the rate limit is checked before the pair is looked up.
  In \<open>db_three\<close> (three sends by Alice to the empty table) the request from Alice to Bob
  exists, and Alice sending to Bob again is answered 429, not 400.
\<close>

theorem send_request_duplicate_counterexample:
  "\<lparr>request_id = 1, from_user = user_id alice, to_user = user_id bob, status = ''pending'',
     created_at = 10\<rparr> \<in> set (friend_requests db_three) \<and>
   fst (send_request 13 (send_to alice (user_id bob)) db_three) =
     Response (Dict [(''error'', ''Rate limit exceeded'')]) HTTP_429_TOO_MANY_REQUESTS \<and>
   status_code (fst (send_request 13 (send_to alice (user_id bob)) db_three)) \<noteq>
     HTTP_400_BAD_REQUEST"
  by (simp add: examples views http)

lemma send_request_recipient:
  assumes "pending_outgoing d (user req) < 3"
    and "distinct (map user_id (users d))"
    and "b \<in> set (users d)"
    and "data req ''to_user_id'' = Some (user_id b)"
  shows "send_request now req d =
     (case get_or_create now (user req) b d of
        Inl e \<Rightarrow> (send_request_except e, d)
      | Inr ((friend_request, created), d') \<Rightarrow>
          if \<not> created
          then (Response (Dict [(''error'', ''Friend request already sent'')])
                  HTTP_400_BAD_REQUEST, d')
          else (Response (FriendRequestData friend_request) HTTP_201_CREATED, d'))"
proof -
  have "\<not> 3 \<le> length (filter (\<lambda>fr. from_user fr = user_id (user req) \<and>
      status fr = ''pending'') (friend_requests d))"
    using assms(1) by (simp add: pending_outgoing_def)
  moreover have "get_object_or_404 ''User''
      (\<lambda>u. Some (user_id u) = data req ''to_user_id'') (users d) = Inr b"
    using user_lookup [OF assms(2,3)] assms(4) by simp
  ultimately show ?thesis
    by (simp add: send_request_def)
qed

lemma send_request_created:
  assumes "pending_outgoing d (user req) < 3"
    and "distinct (map user_id (users d))"
    and "b \<in> set (users d)"
    and "data req ''to_user_id'' = Some (user_id b)"
    and "\<forall>fr\<in>set (friend_requests d).
           \<not> (from_user fr = user_id (user req) \<and> to_user fr = user_id b)"
  shows "send_request now req d =
     (Response (FriendRequestData
        \<lparr>request_id = next_id d, from_user = user_id (user req), to_user = user_id b,
         status = ''pending'', created_at = now\<rparr>) HTTP_201_CREATED,
      d\<lparr>friend_requests := friend_requests d @
           [\<lparr>request_id = next_id d, from_user = user_id (user req), to_user = user_id b,
             status = ''pending'', created_at = now\<rparr>],
        next_id := next_id d + 1\<rparr>)"
proof -
  from assms(5)
  have "filter (\<lambda>fr. from_user fr = user_id (user req) \<and> to_user fr = user_id b)
      (friend_requests d) = []"
    by (simp add: filter_empty_conv)
  then have "get_or_create now (user req) b d =
      Inr ((\<lparr>request_id = next_id d, from_user = user_id (user req), to_user = user_id b,
             status = ''pending'', created_at = now\<rparr>, True),
           d\<lparr>friend_requests := friend_requests d @
              [\<lparr>request_id = next_id d, from_user = user_id (user req), to_user = user_id b,
                status = ''pending'', created_at = now\<rparr>],
             next_id := next_id d + 1\<rparr>)"
    by (simp add: get_or_create_def objects_get_missing Let_def)
  then show ?thesis
    by (simp add: send_request_recipient [OF assms(1-4)])
qed

lemma send_request_existing:
  assumes "pending_outgoing d (user req) < 3"
    and "distinct (map user_id (users d))"
    and "b \<in> set (users d)"
    and "data req ''to_user_id'' = Some (user_id b)"
    and "distinct (map pair_of (friend_requests d))"
    and "fr \<in> set (friend_requests d)"
    and "from_user fr = user_id (user req)" and "to_user fr = user_id b"
  shows "send_request now req d =
     (Response (Dict [(''error'', ''Friend request already sent'')]) HTTP_400_BAD_REQUEST, d)"
proof -
  from pair_lookup [OF assms(5,6)] assms(7,8)
  have "get_or_create now (user req) b d = Inr ((fr, False), d)"
    by (simp add: get_or_create_def)
  then show ?thesis
    by (simp add: send_request_recipient [OF assms(1-4)])
qed

text \<open>
  Claim C1, amended. The sender has fewer than three pending outgoing requests, the
  recipient \<open>b\<close> is a row of the users table (with unique primary keys) and the table
  holds at most one request for each ordered pair. Then \<open>send_request\<close> from the sender
  to \<open>b\<close>
  \<^item> is answered 400 \<open>Friend request already sent\<close> and leaves the database as it was when
    a request from the sender to \<open>b\<close> exists, whatever its status;
  \<^item> is answered 201 with the new request, pending, and appends exactly that request to
    the table when no request from the sender to \<open>b\<close> exists.
\<close>

theorem send_request_get_or_create:
  assumes "pending_outgoing d (user req) < 3"
    and "distinct (map user_id (users d))"
    and "b \<in> set (users d)"
    and "data req ''to_user_id'' = Some (user_id b)"
    and "distinct (map pair_of (friend_requests d))"
  shows
    "(\<forall>fr\<in>set (friend_requests d).
        from_user fr = user_id (user req) \<and> to_user fr = user_id b \<longrightarrow>
        send_request now req d =
          (Response (Dict [(''error'', ''Friend request already sent'')]) HTTP_400_BAD_REQUEST, d))
     \<and>
     ((\<forall>fr\<in>set (friend_requests d).
         \<not> (from_user fr = user_id (user req) \<and> to_user fr = user_id b)) \<longrightarrow>
      send_request now req d =
        (Response (FriendRequestData
           \<lparr>request_id = next_id d, from_user = user_id (user req), to_user = user_id b,
            status = ''pending'', created_at = now\<rparr>) HTTP_201_CREATED,
         d\<lparr>friend_requests := friend_requests d @
              [\<lparr>request_id = next_id d, from_user = user_id (user req), to_user = user_id b,
                status = ''pending'', created_at = now\<rparr>],
           next_id := next_id d + 1\<rparr>))"
proof (intro conjI ballI impI)
  fix fr
  assume "fr \<in> set (friend_requests d)"
    and "from_user fr = user_id (user req) \<and> to_user fr = user_id b"
  then show "send_request now req d =
      (Response (Dict [(''error'', ''Friend request already sent'')]) HTTP_400_BAD_REQUEST, d)"
    using send_request_existing [OF assms] by simp
next
  assume "\<forall>fr\<in>set (friend_requests d).
      \<not> (from_user fr = user_id (user req) \<and> to_user fr = user_id b)"
  then show "send_request now req d =
        (Response (FriendRequestData
           \<lparr>request_id = next_id d, from_user = user_id (user req), to_user = user_id b,
            status = ''pending'', created_at = now\<rparr>) HTTP_201_CREATED,
         d\<lparr>friend_requests := friend_requests d @
              [\<lparr>request_id = next_id d, from_user = user_id (user req), to_user = user_id b,
                status = ''pending'', created_at = now\<rparr>],
           next_id := next_id d + 1\<rparr>)"
    by (rule send_request_created [OF assms(1-4)])
qed

text \<open>
  In \<open>db_one\<close> Alice's request to Bob was rejected: sending it again is answered 400,
  and her first request to Carol is created.
\<close>

theorem send_request_get_or_create_witness:
  "send_request 11 (send_to alice (user_id bob)) db_one =
     (Response (Dict [(''error'', ''Friend request already sent'')]) HTTP_400_BAD_REQUEST, db_one)
   \<and>
   send_request 11 (send_to alice (user_id carol)) db_one =
     (Response (FriendRequestData
        \<lparr>request_id = 2, from_user = 1, to_user = 3, status = ''pending'', created_at = 11\<rparr>)
        HTTP_201_CREATED,
      db_one\<lparr>friend_requests := friend_requests db_one @
          [\<lparr>request_id = 2, from_user = 1, to_user = 3, status = ''pending'', created_at = 11\<rparr>],
        next_id := 3\<rparr>)"
proof -
  have h1: "pending_outgoing db_one (user (send_to alice i)) < 3" for i
    by (simp add: pending_outgoing_def examples)
  have h2: "distinct (map user_id (users db_one))"
    by (simp add: examples)
  have h3: "bob \<in> set (users db_one)" "carol \<in> set (users db_one)"
    by (simp_all add: examples)
  have h4: "data (send_to alice (user_id u)) ''to_user_id'' = Some (user_id u)" for u
    by (simp add: send_to_def)
  have h5: "distinct (map pair_of (friend_requests db_one))"
    by (simp add: examples pair_of_def)
  have r: "\<lparr>request_id = 1, from_user = 1, to_user = 2, status = ''rejected'', created_at = 10\<rparr>
      \<in> set (friend_requests db_one)"
    by (simp add: examples)
  have fresh: "\<forall>fr\<in>set (friend_requests db_one).
      \<not> (from_user fr = user_id (user (send_to alice (user_id carol))) \<and>
         to_user fr = user_id carol)"
    by (simp add: examples)
  from send_request_get_or_create [OF h1 h2 h3(1) h4 h5, of 11] r
  have "send_request 11 (send_to alice (user_id bob)) db_one =
     (Response (Dict [(''error'', ''Friend request already sent'')]) HTTP_400_BAD_REQUEST, db_one)"
    by (simp add: examples)
  moreover from send_request_get_or_create [OF h1 h2 h3(2) h4 h5, of 11] fresh
  have "send_request 11 (send_to alice (user_id carol)) db_one =
     (Response (FriendRequestData
        \<lparr>request_id = 2, from_user = 1, to_user = 3, status = ''pending'', created_at = 11\<rparr>)
        HTTP_201_CREATED,
      db_one\<lparr>friend_requests := friend_requests db_one @
          [\<lparr>request_id = 2, from_user = 1, to_user = 3, status = ''pending'', created_at = 11\<rparr>],
        next_id := 3\<rparr>)"
    by (simp add: examples)
  ultimately show ?thesis by simp
qed

text \<open>
  Claim C5. The claim says that a \<open>to_user_id\<close> that names no user is answered 404. The
  view does not do that: \<open>get_object_or_404\<close> raises \<open>Http404\<close>, not \<open>User.DoesNotExist\<close>,
  inside the \<open>try\<close> block, and the catch-all clause answers 500. Here Alice, with no
  pending request, sends to the unknown user 99.
\<close>

theorem send_request_unknown_user_500:
  "send_request 10 (send_to alice 99) db0 =
     (Response (ErrorOf (Http404 ''No User matches the given query.''))
        HTTP_500_INTERNAL_SERVER_ERROR, db0)
   \<and> status_code (fst (send_request 10 (send_to alice 99) db0)) \<noteq> HTTP_404_NOT_FOUND"
  by (simp add: examples views http)

text \<open>The same for every request below the rate limit whose recipient is not found.\<close>

lemma send_request_unknown_user:
  assumes "pending_outgoing d (user req) < 3"
    and "\<forall>u\<in>set (users d). Some (user_id u) \<noteq> data req ''to_user_id''"
  shows "send_request now req d =
     (Response (ErrorOf (Http404 ''No User matches the given query.''))
        HTTP_500_INTERNAL_SERVER_ERROR, d)"
proof -
  from assms(2) have "filter (\<lambda>u. Some (user_id u) = data req ''to_user_id'') (users d) = []"
    by (simp add: filter_empty_conv)
  then have "get_object_or_404 ''User'' (\<lambda>u. Some (user_id u) = data req ''to_user_id'')
      (users d) = Inl (Http404 ''No User matches the given query.'')"
    by (simp add: get_object_or_404_missing)
  with assms(1) show ?thesis
    by (simp add: send_request_def send_request_except_def pending_outgoing_def)
qed

text \<open>
  Claim C6. The claim says that a \<open>request_id\<close> that names no friend request is answered
  404 by \<open>accept_request\<close> and \<open>reject_request\<close>. Neither does: \<open>get_object_or_404\<close> raises
  \<open>Http404\<close>, not \<open>FriendRequest.DoesNotExist\<close>, and the catch-all clause answers 500.
  Here Bob decides on request 7 while the table holds only request 1.
\<close>

theorem decide_unknown_request_500:
  "accept_request (decide bob 7) db_one =
     (Response (ErrorOf (Http404 ''No FriendRequest matches the given query.''))
        HTTP_500_INTERNAL_SERVER_ERROR, db_one)
   \<and> reject_request (decide bob 7) db_one =
     (Response (ErrorOf (Http404 ''No FriendRequest matches the given query.''))
        HTTP_500_INTERNAL_SERVER_ERROR, db_one)
   \<and> status_code (fst (accept_request (decide bob 7) db_one)) \<noteq> HTTP_404_NOT_FOUND
   \<and> status_code (fst (reject_request (decide bob 7) db_one)) \<noteq> HTTP_404_NOT_FOUND"
  by (simp add: examples views http)

lemma decide_unknown_request:
  assumes "\<forall>fr\<in>set (friend_requests d). Some (request_id fr) \<noteq> data req ''request_id''"
  shows "accept_request req d =
     (Response (ErrorOf (Http404 ''No FriendRequest matches the given query.''))
        HTTP_500_INTERNAL_SERVER_ERROR, d)"
    and "reject_request req d =
     (Response (ErrorOf (Http404 ''No FriendRequest matches the given query.''))
        HTTP_500_INTERNAL_SERVER_ERROR, d)"
proof -
  from assms
  have "filter (\<lambda>fr. Some (request_id fr) = data req ''request_id'') (friend_requests d) = []"
    by (simp add: filter_empty_conv)
  then have miss: "get_object_or_404 ''FriendRequest''
      (\<lambda>fr. Some (request_id fr) = data req ''request_id'') (friend_requests d) =
      Inl (Http404 ''No FriendRequest matches the given query.'')"
    by (simp add: get_object_or_404_missing)
  from miss show "accept_request req d =
     (Response (ErrorOf (Http404 ''No FriendRequest matches the given query.''))
        HTTP_500_INTERNAL_SERVER_ERROR, d)"
    by (simp add: accept_request_def friend_request_except_def)
  from miss show "reject_request req d =
     (Response (ErrorOf (Http404 ''No FriendRequest matches the given query.''))
        HTTP_500_INTERNAL_SERVER_ERROR, d)"
    by (simp add: reject_request_def friend_request_except_def)
qed

text \<open>No exception that \<open>get_object_or_404\<close> raises reaches the 404 clause of a view.\<close>

lemma except_404_unreachable:
  "get_object_or_404 m P rows = Inl e \<Longrightarrow>
   status_code (send_request_except e) = HTTP_500_INTERNAL_SERVER_ERROR \<and>
   status_code (friend_request_except e) = HTTP_500_INTERNAL_SERVER_ERROR"
  by (auto simp: get_object_or_404_def send_request_except_def friend_request_except_def
      Response_def split: sum.splits exn.splits)

text \<open>
  Claim C10. \<open>accept_request\<close> and \<open>reject_request\<close> do not read \<open>request.user\<close>: two
  requests that carry the same \<open>request_id\<close> get the same response and leave the same
  database, whoever sends them. Nothing compares the caller with the recipient of the
  friend request.
\<close>

theorem decide_ignores_caller:
  "data req1 ''request_id'' = data req2 ''request_id'' \<Longrightarrow>
   accept_request req1 d = accept_request req2 d \<and>
   reject_request req1 d = reject_request req2 d"
  by (simp add: accept_request_def reject_request_def)

text \<open>
  Alice's pending request 1 to Bob in \<open>db_three\<close>: Carol, who is neither sender nor
  recipient, accepts or rejects it with the same outcome as Bob.
\<close>

theorem decide_ignores_caller_witness:
  "user (decide bob 1) \<noteq> user (decide carol 1) \<and>
   accept_request (decide bob 1) db_three = accept_request (decide carol 1) db_three \<and>
   reject_request (decide bob 1) db_three = reject_request (decide carol 1) db_three \<and>
   fst (accept_request (decide carol 1) db_three) =
     Response (Dict [(''status'', ''accepted'')]) HTTP_200_OK"
proof -
  have h: "data (decide bob 1) ''request_id'' = data (decide carol 1) ''request_id''"
    by (simp add: decide_def)
  have "user (decide bob 1) \<noteq> user (decide carol 1)"
    by (simp add: examples)
  moreover have "fst (accept_request (decide carol 1) db_three) =
     Response (Dict [(''status'', ''accepted'')]) HTTP_200_OK"
    by (simp add: examples views)
  ultimately show ?thesis
    using decide_ignores_caller [OF h, of db_three] by simp
qed

lemma save_rows:
  "friend_requests (save fr d) =
     map (\<lambda>row. if request_id row = request_id fr then fr else row) (friend_requests d)"
  by (simp add: save_def)

lemma save_other_fields:
  "users (save fr d) = users d" "next_id (save fr d) = next_id d"
  by (simp_all add: save_def)

lemma save_ids:
  "map request_id (friend_requests (save fr d)) = map request_id (friend_requests d)"
  by (simp add: save_def comp_def)

lemma save_member:
  "fr \<in> set (friend_requests d) \<Longrightarrow>
   fr\<lparr>status := s\<rparr> \<in> set (friend_requests (save (fr\<lparr>status := s\<rparr>) d))"
  by (force simp: save_def)

lemma save_row_with_id:
  assumes "row \<in> set (friend_requests (save fr d))" and "request_id row = request_id fr"
  shows "row = fr"
  using assms by (auto simp: save_def split: if_splits)

lemma save_twice:
  "request_id fr2 = request_id fr1 \<Longrightarrow> save fr2 (save fr1 d) = save fr2 d"
  by (simp add: save_def comp_def)

lemma accept_request_found:
  assumes "distinct (map request_id (friend_requests d))"
    and "fr \<in> set (friend_requests d)"
    and "data req ''request_id'' = Some (request_id fr)"
  shows "accept_request req d =
     (Response (Dict [(''status'', ''accepted'')]) HTTP_200_OK,
      save (fr\<lparr>status := ''accepted''\<rparr>) d)"
  using request_lookup [OF assms(1,2)] assms(3) by (simp add: accept_request_def)

lemma reject_request_found:
  assumes "distinct (map request_id (friend_requests d))"
    and "fr \<in> set (friend_requests d)"
    and "data req ''request_id'' = Some (request_id fr)"
  shows "reject_request req d =
     (Response (Dict [(''status'', ''rejected'')]) HTTP_200_OK,
      save (fr\<lparr>status := ''rejected''\<rparr>) d)"
  using request_lookup [OF assms(1,2)] assms(3) by (simp add: reject_request_def)

text \<open>
  Claim C7. For a \<open>request_id\<close> that names a friend request of the table (primary keys
  unique), \<open>accept_request\<close> answers 200 and writes the status \<open>accepted\<close>,
  \<open>reject_request\<close> answers 200 and writes \<open>rejected\<close>, whatever the status was: no
  hypothesis restricts it. Accepting and then rejecting leaves what rejecting alone
  leaves, and the other way round: the last call decides.
\<close>

theorem decide_sets_status:
  assumes "distinct (map request_id (friend_requests d))"
    and "fr \<in> set (friend_requests d)"
    and "data req ''request_id'' = Some (request_id fr)"
  shows
    "accept_request req d =
       (Response (Dict [(''status'', ''accepted'')]) HTTP_200_OK,
        d\<lparr>friend_requests :=
            map (\<lambda>row. if request_id row = request_id fr then fr\<lparr>status := ''accepted''\<rparr>
                        else row) (friend_requests d)\<rparr>)
     \<and> reject_request req d =
       (Response (Dict [(''status'', ''rejected'')]) HTTP_200_OK,
        d\<lparr>friend_requests :=
            map (\<lambda>row. if request_id row = request_id fr then fr\<lparr>status := ''rejected''\<rparr>
                        else row) (friend_requests d)\<rparr>)
     \<and> reject_request req (snd (accept_request req d)) = reject_request req d
     \<and> accept_request req (snd (reject_request req d)) = accept_request req d"
proof -
  let ?acc = "fr\<lparr>status := ''accepted''\<rparr>" and ?rej = "fr\<lparr>status := ''rejected''\<rparr>"
  note acc = accept_request_found [OF assms] and rej = reject_request_found [OF assms]
  have ids_acc: "distinct (map request_id (friend_requests (save ?acc d)))"
    and ids_rej: "distinct (map request_id (friend_requests (save ?rej d)))"
    using assms(1) by (simp_all add: save_ids)
  have key: "data req ''request_id'' = Some (request_id ?acc)"
    "data req ''request_id'' = Some (request_id ?rej)"
    using assms(3) by simp_all
  have "reject_request req (save ?acc d) =
      (Response (Dict [(''status'', ''rejected'')]) HTTP_200_OK,
       save (?acc\<lparr>status := ''rejected''\<rparr>) (save ?acc d))"
    by (rule reject_request_found [OF ids_acc save_member [OF assms(2)] key(1)])
  then have 1: "reject_request req (snd (accept_request req d)) = reject_request req d"
    by (simp add: acc rej save_twice)
  have "accept_request req (save ?rej d) =
      (Response (Dict [(''status'', ''accepted'')]) HTTP_200_OK,
       save (?rej\<lparr>status := ''accepted''\<rparr>) (save ?rej d))"
    by (rule accept_request_found [OF ids_rej save_member [OF assms(2)] key(2)])
  then have 2: "accept_request req (snd (reject_request req d)) = accept_request req d"
    by (simp add: acc rej save_twice)
  from acc rej 1 2 show ?thesis by (simp add: save_def)
qed

text \<open>
  Request 1 of \<open>db_one\<close> is already rejected: Bob accepts it all the same, and rejecting it
  after that leaves it rejected.
\<close>

theorem decide_sets_status_witness:
  "accept_request (decide bob 1) db_one =
     (Response (Dict [(''status'', ''accepted'')]) HTTP_200_OK,
      db_one\<lparr>friend_requests :=
        [\<lparr>request_id = 1, from_user = 1, to_user = 2, status = ''accepted'', created_at = 10\<rparr>]\<rparr>)
   \<and> snd (reject_request (decide bob 1) (snd (accept_request (decide bob 1) db_one))) = db_one"
proof -
  let ?fr = "\<lparr>request_id = 1, from_user = 1, to_user = 2, status = ''rejected'',
    created_at = 10\<rparr>"
  have rows: "friend_requests db_one = [?fr]"
    by (simp add: db_one_def)
  have h1: "distinct (map request_id (friend_requests db_one))"
    by (simp add: rows)
  have h2: "?fr \<in> set (friend_requests db_one)"
    by (simp add: rows)
  have h3: "data (decide bob 1) ''request_id'' = Some (request_id ?fr)"
    by (simp add: decide_def)
  note inst = decide_sets_status [OF h1 h2 h3]
  from inst have acc: "accept_request (decide bob 1) db_one =
     (Response (Dict [(''status'', ''accepted'')]) HTTP_200_OK,
      db_one\<lparr>friend_requests :=
        [\<lparr>request_id = 1, from_user = 1, to_user = 2, status = ''accepted'', created_at = 10\<rparr>]\<rparr>)"
    by (simp add: rows)
  from inst have last_wins: "reject_request (decide bob 1)
      (snd (accept_request (decide bob 1) db_one)) = reject_request (decide bob 1) db_one"
    by blast
  from inst have "snd (reject_request (decide bob 1) db_one) =
      db_one\<lparr>friend_requests := [?fr]\<rparr>"
    by (simp add: rows)
  with last_wins
  have "snd (reject_request (decide bob 1) (snd (accept_request (decide bob 1) db_one)))
      = db_one\<lparr>friend_requests := [?fr]\<rparr>"
    by simp
  also have "\<dots> = db_one"
    by (simp add: db_one_def)
  finally show ?thesis using acc by simp
qed

lemma left_outer_nonempty: "left_outer rows \<noteq> []"
  by (simp add: left_outer_def)

lemma Some_in_left_outer: "Some x \<in> set (left_outer rows) \<longleftrightarrow> x \<in> set rows"
  by (auto simp: left_outer_def)

lemma left_outer_member: "\<exists>x. x \<in> set (left_outer rows)"
  by (cases rows) (auto simp: left_outer_def)

lemma friends_join:
  "u \<in> set (friends d me) \<longleftrightarrow>
     u \<in> set (users d) \<and>
     (\<exists>s\<in>set (left_outer (sent_requests d u)).
      \<exists>r\<in>set (left_outer (received_requests d u)).
        (case s of None \<Rightarrow> False
         | Some fr \<Rightarrow> to_user fr = user_id me \<and> status fr = ''accepted'')
        \<or> (case r of None \<Rightarrow> False
            | Some fr \<Rightarrow> from_user fr = user_id me \<and> status fr = ''accepted''))"
  by (auto simp: friends_def split: if_splits)

text \<open>
  The users that \<open>friends\<close> returns: those with an accepted request to \<open>me\<close> among the
  requests they sent, or an accepted request from \<open>me\<close> among those they received.
\<close>

lemma friends_iff:
  "u \<in> set (friends d me) \<longleftrightarrow>
     u \<in> set (users d) \<and>
     ((\<exists>s\<in>set (friend_requests d).
         from_user s = user_id u \<and> to_user s = user_id me \<and> status s = ''accepted'') \<or>
      (\<exists>r\<in>set (friend_requests d).
         to_user r = user_id u \<and> from_user r = user_id me \<and> status r = ''accepted''))"
  (is "?L \<longleftrightarrow> ?U \<and> (?S \<or> ?R)")
proof
  assume ?L
  then obtain s r where "u \<in> set (users d)"
    and s: "s \<in> set (left_outer (sent_requests d u))"
    and r: "r \<in> set (left_outer (received_requests d u))"
    and c: "(case s of None \<Rightarrow> False
             | Some fr \<Rightarrow> to_user fr = user_id me \<and> status fr = ''accepted'')
          \<or> (case r of None \<Rightarrow> False
              | Some fr \<Rightarrow> from_user fr = user_id me \<and> status fr = ''accepted'')"
    unfolding friends_join by blast
  from c show "?U \<and> (?S \<or> ?R)"
  proof
    assume "case s of None \<Rightarrow> False
      | Some fr \<Rightarrow> to_user fr = user_id me \<and> status fr = ''accepted''"
    then obtain fr where "s = Some fr" "to_user fr = user_id me" "status fr = ''accepted''"
      by (cases s) auto
    with s have "fr \<in> set (friend_requests d)" "from_user fr = user_id u"
      by (auto simp: Some_in_left_outer sent_requests_def)
    with \<open>u \<in> set (users d)\<close> \<open>to_user fr = user_id me\<close> \<open>status fr = ''accepted''\<close>
    show ?thesis by blast
  next
    assume "case r of None \<Rightarrow> False
      | Some fr \<Rightarrow> from_user fr = user_id me \<and> status fr = ''accepted''"
    then obtain fr where "r = Some fr" "from_user fr = user_id me" "status fr = ''accepted''"
      by (cases r) auto
    with r have "fr \<in> set (friend_requests d)" "to_user fr = user_id u"
      by (auto simp: Some_in_left_outer received_requests_def)
    with \<open>u \<in> set (users d)\<close> \<open>from_user fr = user_id me\<close> \<open>status fr = ''accepted''\<close>
    show ?thesis by blast
  qed
next
  assume a: "?U \<and> (?S \<or> ?R)"
  then have u: "u \<in> set (users d)" by simp
  from a have "?S \<or> ?R" by simp
  then show ?L
  proof
    assume ?S
    then obtain fr where fr: "fr \<in> set (friend_requests d)" "from_user fr = user_id u"
      "to_user fr = user_id me" "status fr = ''accepted''" by blast
    then have s: "Some fr \<in> set (left_outer (sent_requests d u))"
      by (simp add: Some_in_left_outer sent_requests_def)
    obtain r where r: "r \<in> set (left_outer (received_requests d u))"
      using left_outer_member by blast
    from u s r fr show ?L
      unfolding friends_join by (intro conjI bexI [of _ "Some fr"] bexI [of _ r]) simp_all
  next
    assume ?R
    then obtain fr where fr: "fr \<in> set (friend_requests d)" "to_user fr = user_id u"
      "from_user fr = user_id me" "status fr = ''accepted''" by blast
    then have r: "Some fr \<in> set (left_outer (received_requests d u))"
      by (simp add: Some_in_left_outer received_requests_def)
    obtain s where s: "s \<in> set (left_outer (sent_requests d u))"
      using left_outer_member by blast
    from u s r fr show ?L
      unfolding friends_join by (intro conjI bexI [of _ s] bexI [of _ "Some fr"]) simp_all
  qed
qed

lemma list_friends_unpaginated:
  "paginate_queryset (friends d (user req)) = None \<Longrightarrow>
   list_friends paginate_queryset req d = Response (UserList (friends d (user req))) HTTP_200_OK"
  by (simp add: list_friends_def)

lemma list_pending_requests_unpaginated:
  "paginate_queryset (pending_requests d (user req)) = None \<Longrightarrow>
   list_pending_requests paginate_queryset req d =
     Response (FriendRequestList (pending_requests d (user req))) HTTP_200_OK"
  by (simp add: list_pending_requests_def)

text \<open>
  Claim C4. After \<open>accept_request\<close> on a request from \<open>a\<close> to \<open>b\<close> (a row of the table,
  primary keys unique, both users rows of the users table), the friends of \<open>a\<close> include
  \<open>b\<close> and the friends of \<open>b\<close> include \<open>a\<close>. \<open>friends\<close> is the query of \<open>list_friends\<close>,
  whose response carries that list (or a page of it).
\<close>

theorem friends_after_accept:
  assumes "distinct (map request_id (friend_requests d))"
    and "fr \<in> set (friend_requests d)"
    and "data req ''request_id'' = Some (request_id fr)"
    and "a \<in> set (users d)" and "b \<in> set (users d)"
    and "from_user fr = user_id a" and "to_user fr = user_id b"
  shows "b \<in> set (friends (snd (accept_request req d)) a) \<and>
         a \<in> set (friends (snd (accept_request req d)) b)"
proof -
  let ?d = "save (fr\<lparr>status := ''accepted''\<rparr>) d"
  have d': "snd (accept_request req d) = ?d"
    by (simp add: accept_request_found [OF assms(1-3)])
  have row: "fr\<lparr>status := ''accepted''\<rparr> \<in> set (friend_requests ?d)"
    by (rule save_member [OF assms(2)])
  have us: "users ?d = users d"
    by (simp add: save_other_fields)
  from row assms(5-7) us have "b \<in> set (friends ?d a)"
    unfolding friends_iff by force
  moreover from row assms(4,6,7) us have "a \<in> set (friends ?d b)"
    unfolding friends_iff by force
  ultimately show ?thesis by (simp add: d')
qed

text \<open>
  Bob accepts request 1, from Alice to Bob, in \<open>db_three\<close>: each is then a friend of the
  other.
\<close>

theorem friends_after_accept_witness:
  "bob \<in> set (friends (snd (accept_request (decide bob 1) db_three)) alice) \<and>
   alice \<in> set (friends (snd (accept_request (decide bob 1) db_three)) bob)"
proof -
  let ?fr = "\<lparr>request_id = 1, from_user = 1, to_user = 2, status = ''pending'',
    created_at = 10\<rparr>"
  have h1: "distinct (map request_id (friend_requests db_three))"
    by (simp add: db_three_def)
  have h2: "?fr \<in> set (friend_requests db_three)"
    by (simp add: db_three_def)
  have h3: "data (decide bob 1) ''request_id'' = Some (request_id ?fr)"
    by (simp add: decide_def)
  have h4: "alice \<in> set (users db_three)" and h5: "bob \<in> set (users db_three)"
    by (simp_all add: db_three_def)
  have h6: "from_user ?fr = user_id alice" and h7: "to_user ?fr = user_id bob"
    by (simp_all add: alice_def bob_def)
  show ?thesis
    by (rule friends_after_accept [OF h1 h2 h3 h4 h5 h6 h7])
qed

text \<open>
  Claim C3. For a request \<open>fr\<close> of the table whose recipient is \<open>b\<close>: it is among the
  pending requests of \<open>b\<close> exactly when its status is \<open>pending\<close>; and after
  \<open>accept_request\<close> or \<open>reject_request\<close> on it (primary keys unique) no row with its
  primary key is among them. \<open>pending_requests\<close> is the query of
  \<open>list_pending_requests\<close>, whose response carries that list (or a page of it).
\<close>

theorem pending_inbox:
  assumes "fr \<in> set (friend_requests d)"
    and "to_user fr = user_id b"
    and "distinct (map request_id (friend_requests d))"
    and "data req ''request_id'' = Some (request_id fr)"
  shows "(fr \<in> set (pending_requests d b) \<longleftrightarrow> status fr = ''pending'')
    \<and> (\<forall>row\<in>set (pending_requests (snd (accept_request req d)) b).
          request_id row \<noteq> request_id fr)
    \<and> (\<forall>row\<in>set (pending_requests (snd (reject_request req d)) b).
          request_id row \<noteq> request_id fr)"
proof (intro conjI ballI)
  from assms(1,2) show "fr \<in> set (pending_requests d b) \<longleftrightarrow> status fr = ''pending''"
    by (simp add: pending_requests_def)
next
  fix row
  assume "row \<in> set (pending_requests (snd (accept_request req d)) b)"
  then have in_table: "row \<in> set (friend_requests (save (fr\<lparr>status := ''accepted''\<rparr>) d))"
    and pending: "status row = ''pending''"
    by (simp_all add: accept_request_found [OF assms(3,1,4)] pending_requests_def)
  show "request_id row \<noteq> request_id fr"
  proof
    assume "request_id row = request_id fr"
    with save_row_with_id [OF in_table] have "row = fr\<lparr>status := ''accepted''\<rparr>" by simp
    with pending show False by simp
  qed
next
  fix row
  assume "row \<in> set (pending_requests (snd (reject_request req d)) b)"
  then have in_table: "row \<in> set (friend_requests (save (fr\<lparr>status := ''rejected''\<rparr>) d))"
    and pending: "status row = ''pending''"
    by (simp_all add: reject_request_found [OF assms(3,1,4)] pending_requests_def)
  show "request_id row \<noteq> request_id fr"
  proof
    assume "request_id row = request_id fr"
    with save_row_with_id [OF in_table] have "row = fr\<lparr>status := ''rejected''\<rparr>" by simp
    with pending show False by simp
  qed
qed

text \<open>
  Request 1 of \<open>db_three\<close>, from Alice to Bob, is pending and in Bob's list; once Bob has
  accepted it, or rejected it, his list is empty.
\<close>

theorem pending_inbox_witness:
  "\<lparr>request_id = 1, from_user = 1, to_user = 2, status = ''pending'', created_at = 10\<rparr>
     \<in> set (pending_requests db_three bob)
   \<and> pending_requests (snd (accept_request (decide bob 1) db_three)) bob = []
   \<and> pending_requests (snd (reject_request (decide bob 1) db_three)) bob = []"
proof -
  let ?fr = "\<lparr>request_id = 1, from_user = 1, to_user = 2, status = ''pending'',
    created_at = 10\<rparr>"
  have h1: "?fr \<in> set (friend_requests db_three)"
    by (simp add: db_three_def)
  have h2: "to_user ?fr = user_id bob"
    by (simp add: bob_def)
  have h3: "distinct (map request_id (friend_requests db_three))"
    by (simp add: db_three_def)
  have h4: "data (decide bob 1) ''request_id'' = Some (request_id ?fr)"
    by (simp add: decide_def)
  note inst = pending_inbox [OF h1 h2 h3 h4]
  have only: "request_id row = 1"
    if "row \<in> set (pending_requests d bob)"
      and "map request_id (friend_requests d) = map request_id (friend_requests db_three)"
      and "map to_user (friend_requests d) = map to_user (friend_requests db_three)" for row d
  proof -
    from that(2,3) obtain r1 r2 r3 where rows: "friend_requests d = [r1, r2, r3]"
      and "request_id r1 = 1" "to_user r2 = 3" "to_user r3 = 4"
      by (auto simp: db_three_def map_eq_Cons_conv)
    with that(1) show ?thesis
      by (auto simp: pending_requests_def bob_def split: if_splits)
  qed
  have acc_rows: "map request_id (friend_requests (snd (accept_request (decide bob 1) db_three)))
        = map request_id (friend_requests db_three)"
      "map to_user (friend_requests (snd (accept_request (decide bob 1) db_three)))
        = map to_user (friend_requests db_three)"
    by (simp_all add: examples views)
  have rej_rows: "map request_id (friend_requests (snd (reject_request (decide bob 1) db_three)))
        = map request_id (friend_requests db_three)"
      "map to_user (friend_requests (snd (reject_request (decide bob 1) db_three)))
        = map to_user (friend_requests db_three)"
    by (simp_all add: examples views)
  have "pending_requests (snd (accept_request (decide bob 1) db_three)) bob = []"
  proof (rule ccontr)
    assume "pending_requests (snd (accept_request (decide bob 1) db_three)) bob \<noteq> []"
    then obtain row where
      row: "row \<in> set (pending_requests (snd (accept_request (decide bob 1) db_three)) bob)"
      using hd_in_set by blast
    from only [OF row acc_rows] inst row show False by auto
  qed
  moreover have "pending_requests (snd (reject_request (decide bob 1) db_three)) bob = []"
  proof (rule ccontr)
    assume "pending_requests (snd (reject_request (decide bob 1) db_three)) bob \<noteq> []"
    then obtain row where
      row: "row \<in> set (pending_requests (snd (reject_request (decide bob 1) db_three)) bob)"
      using hd_in_set by blast
    from only [OF row rej_rows] inst row show False by auto
  qed
  moreover from inst have "?fr \<in> set (pending_requests db_three bob)"
    by simp
  ultimately show ?thesis by simp
qed

lemma no_self_request_iff:
  "no_self_request d \<longleftrightarrow> (\<forall>fr\<in>set (friend_requests d). from_user fr \<noteq> to_user fr)"
  by (simp add: no_self_request_def list_all_iff)

lemma length_filter_update:
  assumes "distinct (map k xs)" and "x \<in> set xs" and "P x" and "\<not> P y" and "k y = k x"
  shows "Suc (length (filter P (map (\<lambda>r. if k r = k x then y else r) xs))) =
         length (filter P xs)"
  using assms(1,2)
proof (induction xs)
  case Nil
  then show ?case by simp
next
  case (Cons a xs)
  show ?case
  proof (cases "a = x")
    case True
    with Cons.prems have "k x \<notin> k ` set xs" by simp
    then have "\<forall>r\<in>set xs. k r \<noteq> k x" by (metis imageI)
    then have "map (\<lambda>r. if k r = k x then y else r) xs = xs"
      by (simp add: map_idI)
    with True assms(3,4) show ?thesis by simp
  next
    case False
    with Cons.prems have "x \<in> set xs" and "k a \<noteq> k x" and "distinct (map k xs)" by auto
    with Cons.IH show ?thesis by simp
  qed
qed

lemma pending_outgoing_after_save:
  assumes "distinct (map request_id (friend_requests d))"
    and "fr \<in> set (friend_requests d)"
    and "from_user fr = user_id u" and "status fr = ''pending''"
    and "s \<noteq> ''pending''"
  shows "Suc (pending_outgoing (save (fr\<lparr>status := s\<rparr>) d) u) = pending_outgoing d u"
proof -
  have "request_id (fr\<lparr>status := s\<rparr>) = request_id fr" by simp
  from length_filter_update [where P = "\<lambda>fr. from_user fr = user_id u \<and> status fr = ''pending''"
      and y = "fr\<lparr>status := s\<rparr>", OF assms(1,2) _ _ this] assms(3-5)
  show ?thesis by (simp add: pending_outgoing_def save_def)
qed

lemma save_row_cases:
  "row \<in> set (friend_requests (save fr d)) \<Longrightarrow> row = fr \<or> row \<in> set (friend_requests d)"
  by (auto simp: save_def split: if_splits)

lemma send_after_save:
  assumes "distinct (map request_id (friend_requests d))"
    and "distinct (map user_id (users d))"
    and "pending_outgoing d (user req) = 3"
    and "fr \<in> set (friend_requests d)"
    and "from_user fr = user_id (user req)" and "status fr = ''pending''"
    and "c \<in> set (users d)" and "data req ''to_user_id'' = Some (user_id c)"
    and "\<forall>row\<in>set (friend_requests d).
           \<not> (from_user row = user_id (user req) \<and> to_user row = user_id c)"
    and "s \<noteq> ''pending''"
  shows "pending_outgoing (save (fr\<lparr>status := s\<rparr>) d) (user req) = 2"
    and "fst (send_request now req (save (fr\<lparr>status := s\<rparr>) d)) =
       Response (FriendRequestData
         \<lparr>request_id = next_id d, from_user = user_id (user req), to_user = user_id c,
          status = ''pending'', created_at = now\<rparr>) HTTP_201_CREATED"
proof -
  let ?d = "save (fr\<lparr>status := s\<rparr>) d"
  from pending_outgoing_after_save [OF assms(1,4,5,6,10)] assms(3)
  show two: "pending_outgoing ?d (user req) = 2" by simp
  then have limit: "pending_outgoing ?d (user req) < 3" by simp
  have us: "distinct (map user_id (users ?d))" "c \<in> set (users ?d)"
    using assms(2,7) by (simp_all add: save_other_fields)
  have fresh: "\<forall>row\<in>set (friend_requests ?d).
      \<not> (from_user row = user_id (user req) \<and> to_user row = user_id c)"
  proof
    fix row
    assume "row \<in> set (friend_requests ?d)"
    then have "row = fr\<lparr>status := s\<rparr> \<or> row \<in> set (friend_requests d)"
      by (rule save_row_cases)
    with assms(4,9) show "\<not> (from_user row = user_id (user req) \<and> to_user row = user_id c)"
      by auto
  qed
  show "fst (send_request now req ?d) =
       Response (FriendRequestData
         \<lparr>request_id = next_id d, from_user = user_id (user req), to_user = user_id c,
          status = ''pending'', created_at = now\<rparr>) HTTP_201_CREATED"
    by (simp add: send_request_created [OF limit us assms(8) fresh] save_other_fields)
qed

text \<open>
  Claim C8. A user has exactly three pending outgoing requests, so \<open>send_request\<close> is
  answered 429. Once one of the three is accepted, or rejected, by anybody (primary keys
  unique), the user's count of pending outgoing requests is two, and \<open>send_request\<close> to
  a user \<open>c\<close> of the users table to whom the sender has no request yet is answered 201
  with the new pending request.
\<close>

theorem send_after_decision:
  assumes "distinct (map request_id (friend_requests d))"
    and "distinct (map user_id (users d))"
    and "pending_outgoing d (user req) = 3"
    and "fr \<in> set (friend_requests d)"
    and "from_user fr = user_id (user req)" and "status fr = ''pending''"
    and "data dec ''request_id'' = Some (request_id fr)"
    and "c \<in> set (users d)" and "data req ''to_user_id'' = Some (user_id c)"
    and "\<forall>row\<in>set (friend_requests d).
           \<not> (from_user row = user_id (user req) \<and> to_user row = user_id c)"
  shows
    "fst (send_request now req d) =
       Response (Dict [(''error'', ''Rate limit exceeded'')]) HTTP_429_TOO_MANY_REQUESTS
     \<and> pending_outgoing (snd (accept_request dec d)) (user req) = 2
     \<and> fst (send_request now req (snd (accept_request dec d))) =
         Response (FriendRequestData
           \<lparr>request_id = next_id d, from_user = user_id (user req), to_user = user_id c,
            status = ''pending'', created_at = now\<rparr>) HTTP_201_CREATED
     \<and> pending_outgoing (snd (reject_request dec d)) (user req) = 2
     \<and> fst (send_request now req (snd (reject_request dec d))) =
         Response (FriendRequestData
           \<lparr>request_id = next_id d, from_user = user_id (user req), to_user = user_id c,
            status = ''pending'', created_at = now\<rparr>) HTTP_201_CREATED"
proof -
  have before: "fst (send_request now req d) =
      Response (Dict [(''error'', ''Rate limit exceeded'')]) HTTP_429_TOO_MANY_REQUESTS"
    using assms(3) by (simp add: send_request_def pending_outgoing_def)
  have acc: "snd (accept_request dec d) = save (fr\<lparr>status := ''accepted''\<rparr>) d"
    by (simp add: accept_request_found [OF assms(1,4,7)])
  have rej: "snd (reject_request dec d) = save (fr\<lparr>status := ''rejected''\<rparr>) d"
    by (simp add: reject_request_found [OF assms(1,4,7)])
  have a: "''accepted'' \<noteq> ''pending''" and r: "''rejected'' \<noteq> ''pending''"
    by simp_all
  note after_acc = send_after_save [OF assms(1-6,8-10) a]
    and after_rej = send_after_save [OF assms(1-6,8-10) r]
  from before after_acc after_rej show ?thesis
    by (simp only: acc rej simp_thms)
qed

text \<open>
  Alice has three pending requests in \<open>db_three\<close>, to Bob, Carol and Dave. There is a
  fifth user, Erin. Alice's request to Erin is refused; after Bob has accepted request 1,
  or rejected it, the same request is created with primary key 4.
\<close>

theorem send_after_decision_witness:
  "fst (send_request 13 (send_to alice 5) (db_three\<lparr>users := users db_three @ [erin]\<rparr>)) =
     Response (Dict [(''error'', ''Rate limit exceeded'')]) HTTP_429_TOO_MANY_REQUESTS
   \<and> fst (send_request 13 (send_to alice 5)
       (snd (accept_request (decide bob 1) (db_three\<lparr>users := users db_three @ [erin]\<rparr>)))) =
     Response (FriendRequestData
       \<lparr>request_id = 4, from_user = 1, to_user = 5, status = ''pending'', created_at = 13\<rparr>)
       HTTP_201_CREATED
   \<and> fst (send_request 13 (send_to alice 5)
       (snd (reject_request (decide bob 1) (db_three\<lparr>users := users db_three @ [erin]\<rparr>)))) =
     Response (FriendRequestData
       \<lparr>request_id = 4, from_user = 1, to_user = 5, status = ''pending'', created_at = 13\<rparr>)
       HTTP_201_CREATED"
proof -
  let ?d = "db_three\<lparr>users := users db_three @ [erin]\<rparr>"
  let ?fr = "\<lparr>request_id = 1, from_user = 1, to_user = 2, status = ''pending'',
    created_at = 10\<rparr>"
  have h1: "distinct (map request_id (friend_requests ?d))"
    by (simp add: db_three_def)
  have h2: "distinct (map user_id (users ?d))"
    by (simp add: examples erin_def)
  have h3: "pending_outgoing ?d (user (send_to alice 5)) = 3"
    by (simp add: pending_outgoing_def examples)
  have h4: "?fr \<in> set (friend_requests ?d)"
    by (simp add: db_three_def)
  have h5: "from_user ?fr = user_id (user (send_to alice 5))" and h6: "status ?fr = ''pending''"
    by (simp_all add: examples)
  have h7: "data (decide bob 1) ''request_id'' = Some (request_id ?fr)"
    by (simp add: decide_def)
  have h8: "erin \<in> set (users ?d)"
    by simp
  have h9: "data (send_to alice 5) ''to_user_id'' = Some (user_id erin)"
    by (simp add: send_to_def erin_def)
  have h10: "\<forall>row\<in>set (friend_requests ?d).
      \<not> (from_user row = user_id (user (send_to alice 5)) \<and> to_user row = user_id erin)"
    by (simp add: examples erin_def)
  have n: "next_id ?d = 4" "user_id (user (send_to alice 5)) = 1" "user_id erin = 5"
    by (simp_all add: examples erin_def)
  from send_after_decision [OF h1 h2 h3 h4 h5 h6 h7 h8 h9 h10, of 13] show ?thesis
    by (simp only: n simp_thms)
qed

lemma objects_get_Inr:
  "objects_get m P rows = Inr x \<Longrightarrow> x \<in> set rows \<and> P x"
proof -
  assume "objects_get m P rows = Inr x"
  then have "filter P rows = [x]"
    by (auto simp: objects_get_def split: list.splits)
  then have "x \<in> set (filter P rows)" by simp
  then show ?thesis by simp
qed

lemma get_object_or_404_Inr:
  "get_object_or_404 m P rows = Inr x \<Longrightarrow> x \<in> set rows \<and> P x"
  by (rule objects_get_Inr [of m])
     (auto simp: get_object_or_404_def split: sum.splits exn.splits)

lemma no_self_request_save:
  assumes "no_self_request d" and "fr \<in> set (friend_requests d)"
  shows "no_self_request (save (fr\<lparr>status := s\<rparr>) d)"
  unfolding no_self_request_iff
proof
  fix row
  assume "row \<in> set (friend_requests (save (fr\<lparr>status := s\<rparr>) d))"
  then have "row = fr\<lparr>status := s\<rparr> \<or> row \<in> set (friend_requests d)"
    by (rule save_row_cases)
  with assms show "from_user row \<noteq> to_user row"
    by (auto simp: no_self_request_iff)
qed

lemma no_self_request_accept:
  "no_self_request d \<Longrightarrow> no_self_request (snd (accept_request req d))"
  by (auto simp: accept_request_def Let_def split: sum.splits
      dest!: get_object_or_404_Inr intro: no_self_request_save)

lemma no_self_request_reject:
  "no_self_request d \<Longrightarrow> no_self_request (snd (reject_request req d))"
  by (auto simp: reject_request_def Let_def split: sum.splits
      dest!: get_object_or_404_Inr intro: no_self_request_save)

lemma get_or_create_rows:
  assumes "get_or_create now a b d = Inr ((fr, created), d')"
  shows "d' = d \<or>
    friend_requests d' = friend_requests d @
      [\<lparr>request_id = next_id d, from_user = user_id a, to_user = user_id b,
        status = ''pending'', created_at = now\<rparr>]"
  using assms
  by (auto simp: get_or_create_def Let_def split: sum.splits exn.splits)

lemma no_self_request_send:
  assumes "no_self_request d" and "data req ''to_user_id'' \<noteq> Some (user_id (user req))"
  shows "no_self_request (snd (send_request now req d))"
proof (cases "get_object_or_404 ''User''
    (\<lambda>u. Some (user_id u) = data req ''to_user_id'') (users d)")
  case (Inl e)
  with assms(1) show ?thesis
    by (simp add: send_request_def)
next
  case (Inr b)
  then have b: "Some (user_id b) = data req ''to_user_id''"
    by (auto dest: get_object_or_404_Inr)
  with assms(2) have ne: "user_id (user req) \<noteq> user_id b" by auto
  show ?thesis
  proof (cases "get_or_create now (user req) b d")
    case (Inl e)
    with Inr assms(1) show ?thesis
      by (simp add: send_request_def)
  next
    case (Inr res)
    obtain fr created d' where res: "res = ((fr, created), d')"
      by (metis prod.exhaust)
    from get_or_create_rows [OF Inr [unfolded res]] assms(1) ne
    have "no_self_request d'"
      by (auto simp: no_self_request_iff)
    with assms(1) Inr res \<open>get_object_or_404 ''User''
        (\<lambda>u. Some (user_id u) = data req ''to_user_id'') (users d) = Inr b\<close>
    show ?thesis
      by (simp add: send_request_def)
  qed
qed

text \<open>
  Claim C9, as stated, fails: nothing in \<open>send_request\<close> compares the recipient with the
  sender. Alice sends to herself in the empty table, and the request from user 1 to
  user 1 is created.
\<close>

theorem send_request_self_counterexample:
  "send_request 10 (send_to alice (user_id alice)) db0 =
     (Response (FriendRequestData
        \<lparr>request_id = 1, from_user = 1, to_user = 1, status = ''pending'', created_at = 10\<rparr>)
        HTTP_201_CREATED,
      db0\<lparr>friend_requests :=
            [\<lparr>request_id = 1, from_user = 1, to_user = 1, status = ''pending'',
              created_at = 10\<rparr>],
          next_id := 2\<rparr>)
   \<and> no_self_request db0
   \<and> \<not> no_self_request (snd (send_request 10 (send_to alice (user_id alice)) db0))"
  by (simp add: examples views http no_self_request_def)

text \<open>
  Claim C9, amended. \<open>accept_request\<close> and \<open>reject_request\<close> keep every request's sender
  different from its recipient, and so does \<open>send_request\<close> when \<open>to_user_id\<close> is not the
  sender's own primary key. A send to oneself is not refused: when the sender has fewer
  than three pending outgoing requests, is a row of the users table (primary keys unique)
  and has no request to themselves yet, it is answered 201 and the request from the
  sender to the sender, pending, is appended to the table.
\<close>

theorem self_request_not_refused:
  "(no_self_request d \<longrightarrow>
      no_self_request (snd (accept_request req d)) \<and>
      no_self_request (snd (reject_request req d)))
   \<and> (no_self_request d \<and> data req ''to_user_id'' \<noteq> Some (user_id (user req)) \<longrightarrow>
      no_self_request (snd (send_request now req d)))
   \<and> (pending_outgoing d (user req) < 3 \<and> distinct (map user_id (users d)) \<and>
      user req \<in> set (users d) \<and> data req ''to_user_id'' = Some (user_id (user req)) \<and>
      (\<forall>fr\<in>set (friend_requests d).
         \<not> (from_user fr = user_id (user req) \<and> to_user fr = user_id (user req))) \<longrightarrow>
      send_request now req d =
        (Response (FriendRequestData
           \<lparr>request_id = next_id d, from_user = user_id (user req),
            to_user = user_id (user req), status = ''pending'', created_at = now\<rparr>)
           HTTP_201_CREATED,
         d\<lparr>friend_requests := friend_requests d @
              [\<lparr>request_id = next_id d, from_user = user_id (user req),
                to_user = user_id (user req), status = ''pending'', created_at = now\<rparr>],
           next_id := next_id d + 1\<rparr>))"
  using no_self_request_accept [of d req] no_self_request_reject [of d req]
    no_self_request_send [of d req now]
    send_request_created [of d req "user req" now]
  by blast

text \<open>
  In \<open>db_one\<close> no request is to its own sender, and that is still so after Bob accepts or
  rejects request 1 and after Alice sends to Carol; Alice's request to herself is created.
\<close>

theorem self_request_not_refused_witness:
  "no_self_request db_one
   \<and> no_self_request (snd (accept_request (decide bob 1) db_one))
   \<and> no_self_request (snd (reject_request (decide bob 1) db_one))
   \<and> no_self_request (snd (send_request 11 (send_to alice 3) db_one))
   \<and> send_request 11 (send_to alice 1) db_one =
       (Response (FriendRequestData
          \<lparr>request_id = 2, from_user = 1, to_user = 1, status = ''pending'', created_at = 11\<rparr>)
          HTTP_201_CREATED,
        db_one\<lparr>friend_requests := friend_requests db_one @
            [\<lparr>request_id = 2, from_user = 1, to_user = 1, status = ''pending'',
              created_at = 11\<rparr>],
          next_id := 3\<rparr>)"
proof -
  have inv: "no_self_request db_one"
    by (simp add: no_self_request_def db_one_def)
  have other: "data (send_to alice 3) ''to_user_id'' \<noteq> Some (user_id (user (send_to alice 3)))"
    by (simp add: send_to_def alice_def)
  have limit: "pending_outgoing db_one (user (send_to alice 1)) < 3"
    by (simp add: pending_outgoing_def examples)
  have keys: "distinct (map user_id (users db_one))"
    by (simp add: examples)
  have sender: "user (send_to alice 1) \<in> set (users db_one)"
    by (simp add: db_one_def send_to_def)
  have self: "data (send_to alice 1) ''to_user_id'' = Some (user_id (user (send_to alice 1)))"
    by (simp add: send_to_def alice_def)
  have fresh: "\<forall>fr\<in>set (friend_requests db_one).
      \<not> (from_user fr = user_id (user (send_to alice 1)) \<and>
         to_user fr = user_id (user (send_to alice 1)))"
    by (simp add: examples)
  have n: "next_id db_one = 2" "user_id (user (send_to alice 1)) = 1"
    by (simp_all add: examples)
  from self_request_not_refused [of db_one "decide bob 1"] inv
  have "no_self_request (snd (accept_request (decide bob 1) db_one))"
    and "no_self_request (snd (reject_request (decide bob 1) db_one))"
    by blast+
  moreover from self_request_not_refused [of db_one "send_to alice 3" 11] inv other
  have "no_self_request (snd (send_request 11 (send_to alice 3) db_one))"
    by blast
  moreover from self_request_not_refused [of db_one "send_to alice 1" 11] limit keys sender self fresh
  have "send_request 11 (send_to alice 1) db_one =
       (Response (FriendRequestData
          \<lparr>request_id = next_id db_one, from_user = user_id (user (send_to alice 1)),
           to_user = user_id (user (send_to alice 1)), status = ''pending'', created_at = 11\<rparr>)
          HTTP_201_CREATED,
        db_one\<lparr>friend_requests := friend_requests db_one @
            [\<lparr>request_id = next_id db_one, from_user = user_id (user (send_to alice 1)),
              to_user = user_id (user (send_to alice 1)), status = ''pending'',
              created_at = 11\<rparr>],
          next_id := next_id db_one + 1\<rparr>)"
    by blast
  ultimately show ?thesis using inv by (simp add: n)
qed

lemma table_ok_empty: "table_ok \<lparr>users = us, friend_requests = [], next_id = n\<rparr>"
  by (simp add: table_ok_def)

lemma unique_key_row:
  assumes "distinct (map k xs)" and "x \<in> set xs" and "r \<in> set xs" and "k r = k x"
  shows "r = x"
  using assms by (meson distinct_map inj_onD)

lemma save_pairs:
  assumes "distinct (map request_id (friend_requests d))" and "fr \<in> set (friend_requests d)"
  shows "map pair_of (friend_requests (save (fr\<lparr>status := s\<rparr>) d)) =
         map pair_of (friend_requests d)"
proof -
  have "pair_of (if request_id row = request_id (fr\<lparr>status := s\<rparr>) then fr\<lparr>status := s\<rparr>
      else row) = pair_of row" if "row \<in> set (friend_requests d)" for row
    using unique_key_row [OF assms that] by (auto simp: pair_of_def)
  then show ?thesis
    by (simp add: save_def)
qed

lemma table_ok_save:
  assumes "table_ok d" and "fr \<in> set (friend_requests d)"
  shows "table_ok (save (fr\<lparr>status := s\<rparr>) d)"
proof -
  from assms(1) have ids: "distinct (map request_id (friend_requests d))"
    by (simp add: table_ok_def)
  have "request_id row < next_id d"
    if "row \<in> set (friend_requests (save (fr\<lparr>status := s\<rparr>) d))" for row
    using save_row_cases [OF that] assms by (auto simp: table_ok_def)
  with assms(1) show ?thesis
    by (simp add: table_ok_def save_ids save_pairs [OF ids assms(2)] save_other_fields)
qed

lemma table_ok_accept: "table_ok d \<Longrightarrow> table_ok (snd (accept_request req d))"
  by (auto simp: accept_request_def Let_def split: sum.splits
      dest!: get_object_or_404_Inr intro: table_ok_save)

lemma table_ok_reject: "table_ok d \<Longrightarrow> table_ok (snd (reject_request req d))"
  by (auto simp: reject_request_def Let_def split: sum.splits
      dest!: get_object_or_404_Inr intro: table_ok_save)

lemma table_ok_get_or_create:
  assumes "table_ok d" and "get_or_create now a b d = Inr ((fr, created), d')"
  shows "table_ok d'"
proof (cases "filter (\<lambda>fr. from_user fr = user_id a \<and> to_user fr = user_id b)
    (friend_requests d) = []")
  case True
  then have "\<forall>row\<in>set (friend_requests d). pair_of row \<noteq> (user_id a, user_id b)"
    by (auto simp: filter_empty_conv pair_of_def)
  then have fresh: "(user_id a, user_id b) \<notin> set (map pair_of (friend_requests d))"
    by auto
  from assms(1) have "next_id d \<notin> set (map request_id (friend_requests d))"
    by (auto simp: table_ok_def)
  moreover from assms(1) have "\<forall>row\<in>set (friend_requests d). request_id row < next_id d + 1"
    by (auto simp: table_ok_def)
  ultimately show ?thesis using True assms fresh
    by (auto simp: get_or_create_def objects_get_missing Let_def table_ok_def pair_of_def)
next
  case False
  with assms show ?thesis
    by (auto simp: get_or_create_def objects_get_def split: list.splits)
qed

lemma table_ok_send: "table_ok d \<Longrightarrow> table_ok (snd (send_request now req d))"
  by (auto simp: send_request_def Let_def split: sum.splits prod.splits
      dest: table_ok_get_or_create)

lemma pending_outgoing_bound_send:
  "pending_outgoing d u \<le> 3 \<Longrightarrow> pending_outgoing (snd (send_request now req d)) u \<le> 3"
  by (auto simp: send_request_def Let_def pending_outgoing_def get_or_create_def
      split: sum.splits prod.splits exn.splits)

end
